theory Spec2Isabelle
  imports Complex_Main
begin

section \<open>Python values used by the pricing core\<close>

subsection \<open>Floats\<close>

text \<open>
  A Python float is an IEEE-754 binary64 number. A finite float is a rational number, so
  floats are modelled as \<open>rat\<close>, and every float operation is the exact operation followed
  by rounding to the nearest number with a 53-bit significand, ties to even (\<open>fl\<close>).
  Overflow to infinity, subnormal numbers, NaN and the sign of zero are outside the model:
  it describes calls whose intermediate results stay in the normal range.
\<close>

definition pow2 :: "int \<Rightarrow> rat" where
  "pow2 e = (if 0 \<le> e then 2 ^ nat e else 1 / 2 ^ nat (- e))"

definition round_half_even :: "rat \<Rightarrow> int" where
  "round_half_even x =
     (let f = \<lfloor>x\<rfloor>; d = x - of_int f
      in if d < 1 / 2 then f else if 1 / 2 < d then f + 1 else if even f then f else f + 1)"

function bit_length :: "int \<Rightarrow> int" where
  \<comment> \<open>\<open>int.bit_length\<close> of a non-negative integer: the number of binary digits\<close>
  "bit_length n = (if n \<le> 0 then 0 else 1 + bit_length (n div 2))"
  by pat_completeness auto
termination
  by (relation "measure nat") auto

definition exponent :: "rat \<Rightarrow> int" where
  \<comment> \<open>the integer \<open>e\<close> with \<open>2 ^ e \<le> |x| < 2 ^ (e + 1)\<close>, for \<open>x \<noteq> 0\<close>\<close>
  "exponent x =
     (let (p, q) = quotient_of \<bar>x\<bar>;
          d = bit_length p - bit_length q
      in if pow2 d \<le> \<bar>x\<bar> then d else d - 1)"

definition fl :: "rat \<Rightarrow> rat" where
  "fl x =
     (if x = 0 then 0
      else let e = exponent x - 52 in of_int (round_half_even (x / pow2 e)) * pow2 e)"

definition fmul :: "rat \<Rightarrow> rat \<Rightarrow> rat" where
  "fmul x y = fl (x * y)"

definition fadd :: "rat \<Rightarrow> rat \<Rightarrow> rat" where
  "fadd x y = fl (x + y)"

definition fdiv :: "rat \<Rightarrow> rat \<Rightarrow> rat" where
  "fdiv x y = fl (x / y)"

definition round2 :: "rat \<Rightarrow> rat" where
  \<comment> \<open>\<open>round(x, 2)\<close>: the decimal with two places nearest to the exact value of \<open>x\<close>
      (ties to even), read back as a float\<close>
  "round2 x = fl (of_int (round_half_even (x * 100)) / 100)"

subsection \<open>Strings\<close>

text \<open>
  Strings are ASCII strings: \<open>lower\<close> is \<open>str.lower\<close> and \<open>strip\<close> is \<open>str.strip\<close> on
  such strings.
\<close>

definition lower_char :: "char \<Rightarrow> char" where
  "lower_char c =
     (let n = (of_char c :: nat) in if 65 \<le> n \<and> n \<le> 90 then char_of (n + 32) else c)"

definition lower :: "string \<Rightarrow> string" where
  "lower s = map lower_char s"

definition is_space :: "char \<Rightarrow> bool" where
  "is_space c = ((of_char c :: nat) \<in> {9, 10, 11, 12, 13, 28, 29, 30, 31, 32})"

definition strip :: "string \<Rightarrow> string" where
  "strip s = rev (dropWhile is_space (rev (dropWhile is_space s)))"

subsection \<open>Exceptions and dictionaries\<close>

datatype py_exception = KeyError

text \<open>
  A dictionary literal is an association list in insertion order; \<open>d.get(k)\<close> is
  \<open>map_of d k\<close>, and \<open>d[k]\<close> raises \<open>KeyError\<close> on a missing key. The brackets computed
  from age and licence years may be \<open>None\<close>, which is never a key.
\<close>

definition getitem :: "('k \<times> 'v) list \<Rightarrow> 'k option \<Rightarrow> py_exception + 'v" where
  "getitem d k =
     (case k of
        None \<Rightarrow> Inl KeyError
      | Some k' \<Rightarrow> (case map_of d k' of None \<Rightarrow> Inl KeyError | Some v \<Rightarrow> Inr v))"

section \<open>Rate tables\<close>

record insurer_info =
  ins_name :: string
  multiplier :: rat
  ins_reputation :: string
  available_add_ons :: "string list"
  special_features :: "string list"

record tier_info =
  tier_label :: string
  price_multiplier :: rat
  minimum_annual :: int
  tier_includes :: "string list"

record addon_info =
  addon_name :: string
  annual_cost :: int

definition INSURERS :: "(string \<times> insurer_info) list" where
  "INSURERS =
    [(''GEICO'',
        \<lparr>ins_name = ''GEICO'', multiplier = fl (95 / 100),
         ins_reputation = ''Budget-friendly, fast quotes'',
         available_add_ons = [''roadside_assistance'', ''rental_car''],
         special_features = []\<rparr>),
     (''Progressive'',
        \<lparr>ins_name = ''Progressive'', multiplier = fl (98 / 100),
         ins_reputation = ''Innovative, name-your-price'',
         available_add_ons = [''roadside_assistance'', ''rental_car'', ''accident_forgiveness''],
         special_features = []\<rparr>),
     (''StateFarm'',
        \<lparr>ins_name = ''StateFarm'', multiplier = 1,
         ins_reputation = ''Like a good neighbor, reliable'',
         available_add_ons =
           [''roadside_assistance'', ''rental_car'', ''gap_insurance'', ''accident_forgiveness''],
         special_features = []\<rparr>),
     (''Allstate'',
        \<lparr>ins_name = ''Allstate'', multiplier = fl (105 / 100),
         ins_reputation = ''You're in good hands'',
         available_add_ons = [''roadside_assistance'', ''gap_insurance'', ''accident_forgiveness''],
         special_features = []\<rparr>),
     (''Travelers'',
        \<lparr>ins_name = ''Travelers'', multiplier = fl (108 / 100),
         ins_reputation = ''Premium service, established since 1853'',
         available_add_ons =
           [''roadside_assistance'', ''rental_car'', ''gap_insurance'', ''accident_forgiveness'',
            ''oem_parts_guarantee''],
         special_features = [''concierge_claims_service'']\<rparr>)]"

definition COVERAGE_TIERS :: "(string \<times> tier_info) list" where
  "COVERAGE_TIERS =
    [(''liability'',
        \<lparr>tier_label = ''Liability Only'', price_multiplier = fl (30 / 100), minimum_annual = 700,
         tier_includes = [''Bodily Injury Liability'', ''Property Damage Liability'']\<rparr>),
     (''standard'',
        \<lparr>tier_label = ''Standard Coverage'', price_multiplier = 1, minimum_annual = 2000,
         tier_includes =
           [''Bodily Injury Liability'', ''Property Damage Liability'', ''Collision Coverage'',
            ''Comprehensive Coverage'', ''Uninsured Motorist'']\<rparr>),
     (''premium'',
        \<lparr>tier_label = ''Premium Coverage'', price_multiplier = 1, minimum_annual = 2500,
         tier_includes = [''Everything in Standard'', ''Plus selected add-ons'']\<rparr>)]"

definition ADD_ONS :: "(string \<times> addon_info) list" where
  "ADD_ONS =
    [(''roadside_assistance'', \<lparr>addon_name = ''Roadside Assistance'', annual_cost = 50\<rparr>),
     (''rental_car'', \<lparr>addon_name = ''Rental Car Coverage'', annual_cost = 75\<rparr>),
     (''gap_insurance'', \<lparr>addon_name = ''Gap Insurance'', annual_cost = 100\<rparr>),
     (''accident_forgiveness'', \<lparr>addon_name = ''Accident Forgiveness'', annual_cost = 150\<rparr>),
     (''oem_parts_guarantee'', \<lparr>addon_name = ''OEM Parts Guarantee'', annual_cost = 75\<rparr>),
     (''concierge_claims'', \<lparr>addon_name = ''Concierge Claims Service'', annual_cost = 0\<rparr>)]"

definition BRAND_RATES :: "(string \<times> rat) list" where
  "BRAND_RATES =
    [(''american'', fl (5 / 100)), (''japanese'', fl (55 / 1000)),
     (''german'', fl (6 / 100)), (''other'', fl (65 / 1000))]"

definition CAR_BRANDS :: "(string \<times> string list) list" where
  "CAR_BRANDS =
    [(''american'',
        [''Ford'', ''Chevrolet'', ''Chevy'', ''Dodge'', ''GMC'', ''Jeep'', ''Cadillac'',
         ''Lincoln'', ''Buick'', ''Chrysler'', ''Ram'']),
     (''japanese'',
        [''Toyota'', ''Honda'', ''Nissan'', ''Mazda'', ''Subaru'', ''Lexus'', ''Acura'',
         ''Infiniti'', ''Mitsubishi'']),
     (''german'',
        [''BMW'', ''Mercedes'', ''Mercedes-Benz'', ''Audi'', ''Volkswagen'', ''VW'', ''Porsche'',
         ''Mini''])]"

definition AGE_ADJUSTMENT :: "(string \<times> rat) list" where
  "AGE_ADJUSTMENT = [(''18-25'', fl (115 / 100)), (''26-60'', 1), (''60+'', fl (90 / 100))]"

definition EXPERIENCE_ADJUSTMENT :: "(string \<times> rat) list" where
  "EXPERIENCE_ADJUSTMENT = [(''0-2'', fl (120 / 100)), (''3-5'', fl (110 / 100)), (''5+'', 1)]"

section \<open>Helper functions\<close>

fun find_category :: "(string \<times> string list) list \<Rightarrow> string \<Rightarrow> string" where
  "find_category [] brand_lower = ''other''"
| "find_category ((category, brands) # rest) brand_lower =
     (if list_ex (\<lambda>b. lower b = brand_lower) brands then category
      else find_category rest brand_lower)"

definition get_brand_category :: "string \<Rightarrow> string" where
  "get_brand_category brand = find_category CAR_BRANDS (strip (lower brand))"

definition get_age_bracket :: "int \<Rightarrow> string option" where
  "get_age_bracket age =
     (if age < 18 then None
      else if age \<le> 25 then Some ''18-25''
      else if age \<le> 60 then Some ''26-60''
      else Some ''60+'')"

definition get_experience_bracket :: "int \<Rightarrow> string option" where
  "get_experience_bracket years =
     (if years < 0 then None
      else if years \<le> 2 then Some ''0-2''
      else if years \<le> 5 then Some ''3-5''
      else Some ''5+'')"

text \<open>
  The loops over \<open>insurer["available_add_ons"]\<close> skip the ids that are not in \<open>ADD_ONS\<close>.
\<close>

definition catalog_addons :: "insurer_info \<Rightarrow> addon_info list" where
  "catalog_addons insurer = List.map_filter (map_of ADD_ONS) (available_add_ons insurer)"

definition get_addon_names :: "string \<Rightarrow> string list" where
  "get_addon_names insurer_name =
     (case map_of INSURERS insurer_name of
        None \<Rightarrow> []
      | Some insurer \<Rightarrow>
          map addon_name (catalog_addons insurer) @
          (if ''concierge_claims_service'' \<in> set (special_features insurer)
           then [''Concierge Service (FREE)''] else []))"

definition get_addon_total :: "string \<Rightarrow> int" where
  "get_addon_total insurer_name =
     (case map_of INSURERS insurer_name of
        None \<Rightarrow> 0
      | Some insurer \<Rightarrow> sum_list (map annual_cost (catalog_addons insurer)))"

section \<open>Premium calculator\<close>

record addon_detail =
  detail_name :: string
  cost :: int
  detail_note :: "string option"

record quote =
  insurer :: string
  reputation :: string
  tier :: string
  tier_name :: string
  brand_category :: string
  annual_premium :: rat
  monthly_premium :: rat
  add_ons :: "addon_detail list"
  coverage_includes :: "string list"

text \<open>
  A returned dictionary is either \<open>{"error": message}\<close> or a success payload.
\<close>

datatype 'a result = Error string | Success 'a

definition calculate_premium ::
  "string \<Rightarrow> rat \<Rightarrow> int \<Rightarrow> int \<Rightarrow> string \<Rightarrow> string \<Rightarrow> py_exception + quote result" where
  "calculate_premium car_brand car_value driver_age license_years insurer_name tier_id =
     (if driver_age < 18 then Inr (Error ''Driver must be at least 18 years old'')
      else
        let category = get_brand_category car_brand in
        case getitem BRAND_RATES (Some category) of
          Inl e \<Rightarrow> Inl e
        | Inr base_rate \<Rightarrow>
        let base_premium = fmul car_value base_rate in
        case getitem AGE_ADJUSTMENT (get_age_bracket driver_age) of
          Inl e \<Rightarrow> Inl e
        | Inr age_multiplier \<Rightarrow>
        case getitem EXPERIENCE_ADJUSTMENT (get_experience_bracket license_years) of
          Inl e \<Rightarrow> Inl e
        | Inr exp_multiplier \<Rightarrow>
        case map_of INSURERS insurer_name of
          None \<Rightarrow> Inr (Error (''Unknown insurer: '' @ insurer_name))
        | Some ins \<Rightarrow>
        case map_of COVERAGE_TIERS tier_id of
          None \<Rightarrow> Inr (Error (''Unknown tier: '' @ tier_id))
        | Some ti \<Rightarrow>
        let adjusted_premium =
              fmul (fmul (fmul base_premium age_multiplier) exp_multiplier) (price_multiplier ti);
            floored_premium = max adjusted_premium (of_int (minimum_annual ti));
            insurer_premium = fmul floored_premium (multiplier ins);
            add_on_total = (if tier_id = ''premium'' then get_addon_total insurer_name else 0);
            add_on_details =
              (if tier_id = ''premium''
               then map (\<lambda>a. \<lparr>detail_name = addon_name a, cost = annual_cost a, detail_note = None\<rparr>)
                      (catalog_addons ins) @
                    (if insurer_name = ''Travelers''
                     then [\<lparr>detail_name = ''Concierge Claims Service'', cost = 0, detail_note = None\<rparr>]
                     else [])
               else []);
            final_premium = fadd insurer_premium (of_int add_on_total)
        in Inr (Success
             \<lparr>insurer = insurer_name, reputation = ins_reputation ins, tier = tier_id,
              tier_name = tier_label ti, brand_category = category,
              annual_premium = round2 final_premium,
              monthly_premium = round2 (fdiv final_premium 12),
              add_ons = add_on_details, coverage_includes = tier_includes ti\<rparr>))"

section \<open>Agent tools\<close>

record offer =
  offer_insurer :: string
  offer_reputation :: string
  offer_annual_premium :: rat
  offer_monthly_premium :: rat
  offer_add_ons :: "string list"

record quotes_payload =
  car_brand :: string
  car_value :: rat
  quotes :: "(string \<times> offer list) list"

text \<open>
  The inner loop of \<open>get_insurance_quotes\<close>: one call of the calculator per insurer, in
  the order of \<open>INSURERS.keys()\<close>; a result without \<open>"success"\<close> is skipped, an
  exception ends the loop and the whole call.
\<close>

fun tier_offers ::
  "string \<Rightarrow> rat \<Rightarrow> int \<Rightarrow> int \<Rightarrow> string \<Rightarrow> string list \<Rightarrow> py_exception + offer list" where
  "tier_offers brand val age years tier_id [] = Inr []"
| "tier_offers brand val age years tier_id (insurer_name # rest) =
     (case calculate_premium brand val age years insurer_name tier_id of
        Inl e \<Rightarrow> Inl e
      | Inr r \<Rightarrow>
          (case tier_offers brand val age years tier_id rest of
             Inl e \<Rightarrow> Inl e
           | Inr os \<Rightarrow>
               Inr (case r of
                      Error msg \<Rightarrow> os
                    | Success q \<Rightarrow>
                        \<lparr>offer_insurer = insurer q, offer_reputation = reputation q,
                         offer_annual_premium = annual_premium q,
                         offer_monthly_premium = monthly_premium q,
                         offer_add_ons =
                           (if tier_id = ''premium'' then get_addon_names (insurer q) else [])\<rparr>
                        # os)))"

text \<open>
  The outer loop: each tier's offers are sorted by annual premium (\<open>list.sort\<close> is
  stable, as \<open>sort_key\<close> is) and stored under the tier's key.
\<close>

fun all_tier_offers ::
  "string \<Rightarrow> rat \<Rightarrow> int \<Rightarrow> int \<Rightarrow> string list \<Rightarrow> py_exception + (string \<times> offer list) list"
  where
  "all_tier_offers brand val age years [] = Inr []"
| "all_tier_offers brand val age years (tier_id # rest) =
     (case tier_offers brand val age years tier_id (map fst INSURERS) of
        Inl e \<Rightarrow> Inl e
      | Inr os \<Rightarrow>
          (case all_tier_offers brand val age years rest of
             Inl e \<Rightarrow> Inl e
           | Inr results \<Rightarrow> Inr ((tier_id, sort_key offer_annual_premium os) # results)))"

definition get_insurance_quotes ::
  "string \<Rightarrow> rat \<Rightarrow> int \<Rightarrow> int \<Rightarrow> string \<Rightarrow> py_exception + quotes_payload result" where
  "get_insurance_quotes brand val driver_age license_years coverage_tier =
     (if driver_age < 18 then Inr (Error ''Driver must be at least 18 years old.'')
      else if val \<le> 0 then Inr (Error ''Car value must be positive.'')
      else if lower coverage_tier = ''all''
      then (case all_tier_offers brand val driver_age license_years
                   [''liability'', ''standard'', ''premium''] of
              Inl e \<Rightarrow> Inl e
            | Inr results \<Rightarrow>
                Inr (Success \<lparr>car_brand = brand, car_value = val, quotes = results\<rparr>))
      else if lower coverage_tier \<in> set [''liability'', ''standard'', ''premium'']
      then (case all_tier_offers brand val driver_age license_years [lower coverage_tier] of
              Inl e \<Rightarrow> Inl e
            | Inr results \<Rightarrow>
                Inr (Success \<lparr>car_brand = brand, car_value = val, quotes = results\<rparr>))
      else Inr (Error (''Unknown tier: '' @ coverage_tier)))"

record addons_payload =
  payload_insurer :: string
  payload_add_ons :: "addon_detail list"

definition get_available_addons :: "string \<Rightarrow> addons_payload result" where
  "get_available_addons insurer_name =
     (case map_of INSURERS insurer_name of
        None \<Rightarrow> Error (''Unknown insurer: '' @ insurer_name)
      | Some ins \<Rightarrow>
          Success
            \<lparr>payload_insurer = insurer_name,
             payload_add_ons =
               map (\<lambda>a. \<lparr>detail_name = addon_name a, cost = annual_cost a, detail_note = None\<rparr>)
                 (catalog_addons ins) @
               (if ''concierge_claims_service'' \<in> set (special_features ins)
                then [\<lparr>detail_name = ''Concierge Claims Service'', cost = 0,
                       detail_note = Some ''FREE with Premium''\<rparr>]
                else [])\<rparr>)"

section \<open>The calculator on valid input\<close>

text \<open>
  Every subscript of a rate table succeeds when the driver is at least 18 and the licence
  years are not negative; the calculator then returns the quote below.
\<close>

lemma find_category_range: "find_category cs x \<in> set (map fst cs) \<union> {''other''}"
  by (induction cs x rule: find_category.induct) auto

lemma brand_category_cases:
  "get_brand_category b \<in> {''american'', ''japanese'', ''german'', ''other''}"
  using find_category_range [of CAR_BRANDS "strip (lower b)"]
  by (auto simp: get_brand_category_def CAR_BRANDS_def)

lemma brand_rate_defined: "\<exists>r. getitem BRAND_RATES (Some (get_brand_category b)) = Inr r"
  using brand_category_cases [of b] by (auto simp: getitem_def BRAND_RATES_def)

lemma age_multiplier_defined:
  "18 \<le> age \<Longrightarrow> \<exists>m. getitem AGE_ADJUSTMENT (get_age_bracket age) = Inr m"
  by (simp add: getitem_def AGE_ADJUSTMENT_def get_age_bracket_def)

lemma exp_multiplier_defined:
  "0 \<le> years \<Longrightarrow> \<exists>m. getitem EXPERIENCE_ADJUSTMENT (get_experience_bracket years) = Inr m"
  by (simp add: getitem_def EXPERIENCE_ADJUSTMENT_def get_experience_bracket_def)

lemma exp_multiplier_negative:
  "years < 0 \<Longrightarrow> getitem EXPERIENCE_ADJUSTMENT (get_experience_bracket years) = Inl KeyError"
  by (simp add: getitem_def get_experience_bracket_def)

lemma calculate_premium_valid:
  assumes "18 \<le> age" and "0 \<le> years"
    and "map_of INSURERS n = Some ins" and "map_of COVERAGE_TIERS t = Some ti"
  shows "\<exists>br am em.
           getitem BRAND_RATES (Some (get_brand_category b)) = Inr br \<and>
           getitem AGE_ADJUSTMENT (get_age_bracket age) = Inr am \<and>
           getitem EXPERIENCE_ADJUSTMENT (get_experience_bracket years) = Inr em \<and>
           calculate_premium b v age years n t =
             Inr (Success
               \<lparr>insurer = n, reputation = ins_reputation ins, tier = t,
                tier_name = tier_label ti, brand_category = get_brand_category b,
                annual_premium =
                  round2 (fadd (fmul (max (fmul (fmul (fmul (fmul v br) am) em) (price_multiplier ti))
                                       (of_int (minimum_annual ti))) (multiplier ins))
                          (of_int (if t = ''premium'' then get_addon_total n else 0))),
                monthly_premium =
                  round2 (fdiv (fadd (fmul (max (fmul (fmul (fmul (fmul v br) am) em)
                                                  (price_multiplier ti))
                                             (of_int (minimum_annual ti))) (multiplier ins))
                                (of_int (if t = ''premium'' then get_addon_total n else 0))) 12),
                add_ons =
                  (if t = ''premium''
                   then map (\<lambda>a. \<lparr>detail_name = addon_name a, cost = annual_cost a,
                                    detail_note = None\<rparr>) (catalog_addons ins) @
                        (if n = ''Travelers''
                         then [\<lparr>detail_name = ''Concierge Claims Service'', cost = 0,
                                detail_note = None\<rparr>]
                         else [])
                   else []),
                coverage_includes = tier_includes ti\<rparr>)"
proof -
  obtain br where br: "getitem BRAND_RATES (Some (get_brand_category b)) = Inr br"
    using brand_rate_defined by blast
  obtain am where am: "getitem AGE_ADJUSTMENT (get_age_bracket age) = Inr am"
    using age_multiplier_defined [OF assms(1)] by blast
  obtain em where em: "getitem EXPERIENCE_ADJUSTMENT (get_experience_bracket years) = Inr em"
    using exp_multiplier_defined [OF assms(2)] by blast
  have "\<not> age < 18" using assms(1) by simp
  then show ?thesis
    unfolding calculate_premium_def
    by (simp add: br am em assms(3,4) Let_def)
qed

section \<open>Claims about errors\<close>

text \<open>
  Claim C6, as amended. For every driver age below 18 the calculator returns the error
  \<open>Driver must be at least 18 years old\<close> and the aggregator returns the error
  \<open>Driver must be at least 18 years old.\<close> (the same sentence with a full stop), as the
  whole result and whatever the other arguments are: negative licence years, which make a
  table subscript raise, and unknown insurer or tier ids do not change the result, so the
  age check comes before every table lookup and no insurer is tried.
\<close>

theorem underage_rejected:
  assumes "age < 18"
  shows "calculate_premium b v age years n t = Inr (Error ''Driver must be at least 18 years old'') \<and>
         get_insurance_quotes b v age years sel =
           Inr (Error ''Driver must be at least 18 years old.'')"
  using assms by (simp add: calculate_premium_def get_insurance_quotes_def)

theorem underage_rejected_witness:
  "(17::int) < 18 \<and>
   calculate_premium ''Toyota'' 20000 17 (- 1) ''NoSuchInsurer'' ''gold'' =
     Inr (Error ''Driver must be at least 18 years old'') \<and>
   get_insurance_quotes ''Toyota'' 20000 17 (- 1) ''gold'' =
     Inr (Error ''Driver must be at least 18 years old.'')"
proof -
  have h: "(17::int) < 18" by simp
  show ?thesis
    using h underage_rejected [OF h, of "''Toyota''" 20000 "- 1" "''NoSuchInsurer''" "''gold''" "''gold''"]
    by simp
qed

text \<open>
  Claim C6 as stated gives one message for both operations; the aggregator's message is a
  different string.
\<close>

theorem underage_message_counterexample:
  "get_insurance_quotes ''Toyota'' 20000 17 10 ''standard'' \<noteq>
     Inr (Error ''Driver must be at least 18 years old'')"
  by (simp add: get_insurance_quotes_def)

text \<open>
  Claim C8, as amended. For every string that is not a known insurer name, the public
  add-on listing \<open>get_available_addons\<close> returns the error value
  \<open>Unknown insurer: <name>\<close>; the internal helpers return "no data":
  \<open>get_addon_names\<close> the empty list and \<open>get_addon_total\<close> zero.
\<close>

theorem unknown_insurer_addons:
  assumes "n \<notin> fst ` set INSURERS"
  shows "get_available_addons n = Error (''Unknown insurer: '' @ n) \<and>
         get_addon_names n = [] \<and> get_addon_total n = 0"
proof -
  have "map_of INSURERS n = None" using assms by (simp add: map_of_eq_None_iff)
  then show ?thesis
    by (simp add: get_available_addons_def get_addon_names_def get_addon_total_def)
qed

theorem unknown_insurer_addons_witness:
  "''Acme'' \<notin> fst ` set INSURERS \<and>
   get_available_addons ''Acme'' = Error ''Unknown insurer: Acme'' \<and>
   get_addon_names ''Acme'' = [] \<and> get_addon_total ''Acme'' = 0"
proof -
  have h: "''Acme'' \<notin> fst ` set INSURERS" by (simp add: INSURERS_def)
  show ?thesis using h unknown_insurer_addons [OF h] by simp
qed

text \<open>
  Claim C8 as stated says that the listing returns an empty list and no error; for the
  unknown name \<open>Acme\<close> it returns an error value.
\<close>

theorem unknown_insurer_addons_counterexample:
  "get_available_addons ''Acme'' = Error ''Unknown insurer: Acme''"
  by (simp add: get_available_addons_def INSURERS_def)

section \<open>Claims about the premium calculation\<close>

text \<open>
  With negative licence years the experience bracket is \<open>None\<close> and the subscript of
  \<open>EXPERIENCE_ADJUSTMENT\<close> raises, before the insurer and the tier are looked up.
\<close>

lemma calculate_premium_negative_years:
  assumes "18 \<le> age" and "years < 0"
  shows "calculate_premium b v age years n t = Inl KeyError"
proof -
  obtain br where br: "getitem BRAND_RATES (Some (get_brand_category b)) = Inr br"
    using brand_rate_defined by blast
  obtain am where am: "getitem AGE_ADJUSTMENT (get_age_bracket age) = Inr am"
    using age_multiplier_defined [OF assms(1)] by blast
  have "\<not> age < 18" using assms(1) by simp
  then show ?thesis
    unfolding calculate_premium_def
    by (simp add: br am exp_multiplier_negative [OF assms(2)] Let_def)
qed

text \<open>
  Claim C1, as amended. For every input with age at least 18, licence years not negative,
  and a known insurer and tier, the calculator returns a quote whose annual premium is the
  rounded sum of the add-on total and
  \<open>max (value * brand rate * age multiplier * experience multiplier * tier price multiplier)
  (tier minimum) * insurer multiplier\<close>, every product being a float product: the tier
  floor is applied before the insurer multiplier, so the floored amount is at least the
  tier minimum whatever the insurer multiplier is.
\<close>

theorem tier_floor_before_insurer_multiplier:
  assumes "18 \<le> age" and "0 \<le> years"
    and "map_of INSURERS n = Some ins" and "map_of COVERAGE_TIERS t = Some ti"
  shows "\<exists>br am em q.
           getitem BRAND_RATES (Some (get_brand_category b)) = Inr br \<and>
           getitem AGE_ADJUSTMENT (get_age_bracket age) = Inr am \<and>
           getitem EXPERIENCE_ADJUSTMENT (get_experience_bracket years) = Inr em \<and>
           calculate_premium b v age years n t = Inr (Success q) \<and>
           annual_premium q =
             round2 (fadd (fmul (max (fmul (fmul (fmul (fmul v br) am) em) (price_multiplier ti))
                                  (of_int (minimum_annual ti))) (multiplier ins))
                     (of_int (if t = ''premium'' then get_addon_total n else 0))) \<and>
           of_int (minimum_annual ti) \<le>
             max (fmul (fmul (fmul (fmul v br) am) em) (price_multiplier ti))
               (of_int (minimum_annual ti))"
proof -
  from calculate_premium_valid [OF assms, of b v]
  obtain br am em q where
    "getitem BRAND_RATES (Some (get_brand_category b)) = Inr br"
    "getitem AGE_ADJUSTMENT (get_age_bracket age) = Inr am"
    "getitem EXPERIENCE_ADJUSTMENT (get_experience_bracket years) = Inr em"
    "calculate_premium b v age years n t = Inr (Success q)"
    "annual_premium q =
       round2 (fadd (fmul (max (fmul (fmul (fmul (fmul v br) am) em) (price_multiplier ti))
                            (of_int (minimum_annual ti))) (multiplier ins))
               (of_int (if t = ''premium'' then get_addon_total n else 0)))"
    by force
  then show ?thesis by (intro exI conjI) (assumption+, simp)
qed

theorem tier_floor_before_insurer_multiplier_witness:
  "\<exists>ins ti.
     (18::int) \<le> 30 \<and> (0::int) \<le> 10 \<and>
     map_of INSURERS ''GEICO'' = Some ins \<and> map_of COVERAGE_TIERS ''liability'' = Some ti \<and>
     (\<exists>br am em q.
        getitem BRAND_RATES (Some (get_brand_category ''Ford'')) = Inr br \<and>
        getitem AGE_ADJUSTMENT (get_age_bracket 30) = Inr am \<and>
        getitem EXPERIENCE_ADJUSTMENT (get_experience_bracket 10) = Inr em \<and>
        calculate_premium ''Ford'' 10000 30 10 ''GEICO'' ''liability'' = Inr (Success q) \<and>
        annual_premium q =
          round2 (fadd (fmul (max (fmul (fmul (fmul (fmul 10000 br) am) em) (price_multiplier ti))
                               (of_int (minimum_annual ti))) (multiplier ins))
                  (of_int (if ''liability'' = ''premium'' then get_addon_total ''GEICO'' else 0))) \<and>
        of_int (minimum_annual ti) \<le>
          max (fmul (fmul (fmul (fmul 10000 br) am) em) (price_multiplier ti))
            (of_int (minimum_annual ti)))"
proof -
  have h1: "(18::int) \<le> 30" and h2: "(0::int) \<le> 10" by simp_all
  obtain ins where h3: "map_of INSURERS ''GEICO'' = Some ins" by (simp add: INSURERS_def)
  obtain ti where h4: "map_of COVERAGE_TIERS ''liability'' = Some ti"
    by (simp add: COVERAGE_TIERS_def)
  show ?thesis
    using h1 h2 h3 h4
      tier_floor_before_insurer_multiplier [OF h1 h2 h3 h4, of "''Ford''" 10000]
    by blast
qed

text \<open>
  Claim C1 as stated counts every input with age at least 18 and a known insurer and tier
  as valid; with licence years \<open>-1\<close> such an input has no premium at all, the call
  raises \<open>KeyError\<close>.
\<close>

theorem negative_license_years_counterexample:
  "(18::int) \<le> 30 \<and> ''StateFarm'' \<in> fst ` set INSURERS \<and>
   ''standard'' \<in> fst ` set COVERAGE_TIERS \<and>
   calculate_premium ''Toyota'' 20000 30 (- 1) ''StateFarm'' ''standard'' = Inl KeyError"
  by (simp add: calculate_premium_negative_years INSURERS_def COVERAGE_TIERS_def)

text \<open>
  The two worked cases of the specification, with the values they pass through.
\<close>

lemma case_statefarm_standard:
  "calculate_premium ''Toyota'' 20000 30 10 ''StateFarm'' ''standard'' =
     Inr (Success
       \<lparr>insurer = ''StateFarm'', reputation = ''Like a good neighbor, reliable'',
        tier = ''standard'', tier_name = ''Standard Coverage'', brand_category = ''japanese'',
        annual_premium = 2000, monthly_premium = fl (16667 / 100), add_ons = [],
        coverage_includes =
          [''Bodily Injury Liability'', ''Property Damage Liability'', ''Collision Coverage'',
           ''Comprehensive Coverage'', ''Uninsured Motorist'']\<rparr>)"
  by code_simp

lemma case_geico_premium:
  "calculate_premium ''Toyota'' 20000 30 10 ''GEICO'' ''premium'' =
     Inr (Success
       \<lparr>insurer = ''GEICO'', reputation = ''Budget-friendly, fast quotes'',
        tier = ''premium'', tier_name = ''Premium Coverage'', brand_category = ''japanese'',
        annual_premium = 2500, monthly_premium = fl (20833 / 100),
        add_ons =
          [\<lparr>detail_name = ''Roadside Assistance'', cost = 50, detail_note = None\<rparr>,
           \<lparr>detail_name = ''Rental Car Coverage'', cost = 75, detail_note = None\<rparr>],
        coverage_includes = [''Everything in Standard'', ''Plus selected add-ons'']\<rparr>)"
  by code_simp

lemma case_intermediate_values:
  "fmul 20000 (fl (55 / 1000)) = 1100"
  "fmul (max 1100 (of_int 2500)) (fl (95 / 100)) = 2375"
  "get_addon_total ''GEICO'' = 125"
  "fadd 2375 (of_int 125) = 2500"
  by code_simp+

text \<open>
  Claim C2. For a Toyota worth 20000, a driver aged 30 with 10 licence years: StateFarm
  standard gives the annual premium 2000.00 and the monthly premium 166.67; GEICO premium
  gives the annual premium 2500.00 (the adjusted 1100 is floored to 2500, times 0.95 is
  2375, plus the add-on total 125). The float written \<open>166.67\<close> is \<open>fl (16667 / 100)\<close>.
\<close>

theorem concrete_cases:
  "calculate_premium ''Toyota'' 20000 30 10 ''StateFarm'' ''standard'' =
     Inr (Success
       \<lparr>insurer = ''StateFarm'', reputation = ''Like a good neighbor, reliable'',
        tier = ''standard'', tier_name = ''Standard Coverage'', brand_category = ''japanese'',
        annual_premium = 2000, monthly_premium = fl (16667 / 100), add_ons = [],
        coverage_includes =
          [''Bodily Injury Liability'', ''Property Damage Liability'', ''Collision Coverage'',
           ''Comprehensive Coverage'', ''Uninsured Motorist'']\<rparr>) \<and>
   calculate_premium ''Toyota'' 20000 30 10 ''GEICO'' ''premium'' =
     Inr (Success
       \<lparr>insurer = ''GEICO'', reputation = ''Budget-friendly, fast quotes'',
        tier = ''premium'', tier_name = ''Premium Coverage'', brand_category = ''japanese'',
        annual_premium = 2500, monthly_premium = fl (20833 / 100),
        add_ons =
          [\<lparr>detail_name = ''Roadside Assistance'', cost = 50, detail_note = None\<rparr>,
           \<lparr>detail_name = ''Rental Car Coverage'', cost = 75, detail_note = None\<rparr>],
        coverage_includes = [''Everything in Standard'', ''Plus selected add-ons'']\<rparr>) \<and>
   fmul 20000 (fl (55 / 1000)) = 1100 \<and>
   fmul (max 1100 (of_int 2500)) (fl (95 / 100)) = 2375 \<and>
   get_addon_total ''GEICO'' = 125 \<and>
   fadd 2375 (of_int 125) = 2500"
  by (intro conjI case_statefarm_standard case_geico_premium case_intermediate_values)

text \<open>
  Claim C4 says that the aggregator answers negative licence years with a structured
  error value. It does not: the aggregator checks the age and the car value only, and the
  calculator's table subscript raises \<open>KeyError\<close>, which crosses the public boundary.
\<close>

theorem negative_license_years_raises:
  "get_insurance_quotes ''Toyota'' 20000 30 (- 1) ''standard'' = Inl KeyError"
  by code_simp

section \<open>Claims about add-ons and rounding\<close>

text \<open>
  Facts of the insurer table: every add-on id an insurer offers is in the catalogue, so the
  loops skip nothing; Travelers is the one insurer with a special feature, the concierge
  claims service.
\<close>

lemma insurer_table_facts:
  assumes "map_of INSURERS n = Some ins"
  shows "set (available_add_ons ins) \<subseteq> fst ` set ADD_ONS"
    and "catalog_addons ins = map (\<lambda>i. the (map_of ADD_ONS i)) (available_add_ons ins)"
    and "(n = ''Travelers'') = (special_features ins \<noteq> [])"
    and "(''concierge_claims_service'' \<in> set (special_features ins)) = (n = ''Travelers'')"
    and "get_addon_total n = sum_list (map annual_cost (catalog_addons ins))"
proof -
  have "(n, ins) \<in> set INSURERS" using assms by (rule map_of_SomeD)
  then have cases: "(n, ins) = INSURERS ! 0 \<or> (n, ins) = INSURERS ! 1 \<or> (n, ins) = INSURERS ! 2 \<or>
      (n, ins) = INSURERS ! 3 \<or> (n, ins) = INSURERS ! 4"
    by (auto simp: INSURERS_def)
  from cases show "set (available_add_ons ins) \<subseteq> fst ` set ADD_ONS"
    by (auto simp: INSURERS_def ADD_ONS_def)
  from cases show "catalog_addons ins = map (\<lambda>i. the (map_of ADD_ONS i)) (available_add_ons ins)"
    by (auto simp: INSURERS_def ADD_ONS_def catalog_addons_def List.map_filter_def)
  from cases show "(n = ''Travelers'') = (special_features ins \<noteq> [])"
    by (auto simp: INSURERS_def)
  from cases show "(''concierge_claims_service'' \<in> set (special_features ins)) = (n = ''Travelers'')"
    by (auto simp: INSURERS_def)
  show "get_addon_total n = sum_list (map annual_cost (catalog_addons ins))"
    by (simp add: get_addon_total_def assms)
qed

text \<open>
  Claim C3. For every valid input (age at least 18, licence years not negative, known
  insurer and tier): if the tier is \<open>premium\<close>, the returned add-on list holds every add-on
  the insurer offers, in the insurer's order, followed by the free special feature at cost
  zero if the insurer has one, and the sum of the annual costs of all these add-ons is added
  to the premium; for every other tier the add-on list is empty and nothing is added.
\<close>

theorem premium_tier_addons:
  assumes "18 \<le> age" and "0 \<le> years"
    and "map_of INSURERS n = Some ins" and "map_of COVERAGE_TIERS t = Some ti"
  shows "\<exists>br am em q.
           getitem BRAND_RATES (Some (get_brand_category b)) = Inr br \<and>
           getitem AGE_ADJUSTMENT (get_age_bracket age) = Inr am \<and>
           getitem EXPERIENCE_ADJUSTMENT (get_experience_bracket years) = Inr em \<and>
           calculate_premium b v age years n t = Inr (Success q) \<and>
           set (available_add_ons ins) \<subseteq> fst ` set ADD_ONS \<and>
           (if t = ''premium''
            then add_ons q =
                   map (\<lambda>i. \<lparr>detail_name = addon_name (the (map_of ADD_ONS i)),
                              cost = annual_cost (the (map_of ADD_ONS i)), detail_note = None\<rparr>)
                     (available_add_ons ins) @
                   (if special_features ins = [] then []
                    else [\<lparr>detail_name = ''Concierge Claims Service'', cost = 0,
                           detail_note = None\<rparr>]) \<and>
                 annual_premium q =
                   round2 (fadd (fmul (max (fmul (fmul (fmul (fmul v br) am) em)
                                              (price_multiplier ti))
                                         (of_int (minimum_annual ti))) (multiplier ins))
                           (of_int (sum_list (map (\<lambda>i. annual_cost (the (map_of ADD_ONS i)))
                                                (available_add_ons ins)))))
            else add_ons q = [] \<and>
                 annual_premium q =
                   round2 (fadd (fmul (max (fmul (fmul (fmul (fmul v br) am) em)
                                              (price_multiplier ti))
                                         (of_int (minimum_annual ti))) (multiplier ins)) 0))"
proof -
  note facts = insurer_table_facts [OF assms(3)]
  from calculate_premium_valid [OF assms, of b v]
  obtain br am em q where
    br: "getitem BRAND_RATES (Some (get_brand_category b)) = Inr br" and
    am: "getitem AGE_ADJUSTMENT (get_age_bracket age) = Inr am" and
    em: "getitem EXPERIENCE_ADJUSTMENT (get_experience_bracket years) = Inr em" and
    q: "calculate_premium b v age years n t = Inr (Success q)" and
    annual: "annual_premium q =
       round2 (fadd (fmul (max (fmul (fmul (fmul (fmul v br) am) em) (price_multiplier ti))
                            (of_int (minimum_annual ti))) (multiplier ins))
               (of_int (if t = ''premium'' then get_addon_total n else 0)))" and
    details: "add_ons q =
       (if t = ''premium''
        then map (\<lambda>a. \<lparr>detail_name = addon_name a, cost = annual_cost a,
                         detail_note = None\<rparr>) (catalog_addons ins) @
             (if n = ''Travelers''
              then [\<lparr>detail_name = ''Concierge Claims Service'', cost = 0,
                     detail_note = None\<rparr>]
              else [])
        else [])"
    by force
  have fin:
    "if t = ''premium''
     then add_ons q =
            map (\<lambda>i. \<lparr>detail_name = addon_name (the (map_of ADD_ONS i)),
                       cost = annual_cost (the (map_of ADD_ONS i)), detail_note = None\<rparr>)
              (available_add_ons ins) @
            (if special_features ins = [] then []
             else [\<lparr>detail_name = ''Concierge Claims Service'', cost = 0,
                    detail_note = None\<rparr>]) \<and>
          annual_premium q =
            round2 (fadd (fmul (max (fmul (fmul (fmul (fmul v br) am) em)
                                       (price_multiplier ti))
                                  (of_int (minimum_annual ti))) (multiplier ins))
                    (of_int (sum_list (map (\<lambda>i. annual_cost (the (map_of ADD_ONS i)))
                                         (available_add_ons ins)))))
     else add_ons q = [] \<and>
          annual_premium q =
            round2 (fadd (fmul (max (fmul (fmul (fmul (fmul v br) am) em)
                                       (price_multiplier ti))
                                  (of_int (minimum_annual ti))) (multiplier ins)) 0)"
    by (simp add: annual details facts(2,3,5) comp_def)
  show ?thesis
    by (intro exI conjI) (rule br, rule am, rule em, rule q, rule facts(1), rule fin)
qed

theorem premium_tier_addons_witness:
  "\<exists>ins ti.
     (18::int) \<le> 30 \<and> (0::int) \<le> 10 \<and>
     map_of INSURERS ''Travelers'' = Some ins \<and> map_of COVERAGE_TIERS ''premium'' = Some ti \<and>
     (\<exists>br am em q.
           getitem BRAND_RATES (Some (get_brand_category ''Toyota'')) = Inr br \<and>
           getitem AGE_ADJUSTMENT (get_age_bracket 30) = Inr am \<and>
           getitem EXPERIENCE_ADJUSTMENT (get_experience_bracket 10) = Inr em \<and>
           calculate_premium ''Toyota'' 20000 30 10 ''Travelers'' ''premium'' = Inr (Success q) \<and>
           set (available_add_ons ins) \<subseteq> fst ` set ADD_ONS \<and>
           (if ''premium'' = ''premium''
            then add_ons q =
                   map (\<lambda>i. \<lparr>detail_name = addon_name (the (map_of ADD_ONS i)),
                              cost = annual_cost (the (map_of ADD_ONS i)), detail_note = None\<rparr>)
                     (available_add_ons ins) @
                   (if special_features ins = [] then []
                    else [\<lparr>detail_name = ''Concierge Claims Service'', cost = 0,
                           detail_note = None\<rparr>]) \<and>
                 annual_premium q =
                   round2 (fadd (fmul (max (fmul (fmul (fmul (fmul 20000 br) am) em)
                                              (price_multiplier ti))
                                         (of_int (minimum_annual ti))) (multiplier ins))
                           (of_int (sum_list (map (\<lambda>i. annual_cost (the (map_of ADD_ONS i)))
                                                (available_add_ons ins)))))
            else add_ons q = [] \<and>
                 annual_premium q =
                   round2 (fadd (fmul (max (fmul (fmul (fmul (fmul 20000 br) am) em)
                                              (price_multiplier ti))
                                         (of_int (minimum_annual ti))) (multiplier ins)) 0)))"
proof -
  have h1: "(18::int) \<le> 30" and h2: "(0::int) \<le> 10" by simp_all
  obtain ins where h3: "map_of INSURERS ''Travelers'' = Some ins" by (simp add: INSURERS_def)
  obtain ti where h4: "map_of COVERAGE_TIERS ''premium'' = Some ti"
    by (simp add: COVERAGE_TIERS_def)
  show ?thesis
    using h1 h2 h3 h4 premium_tier_addons [OF h1 h2 h3 h4, of "''Toyota''" 20000]
    by blast
qed

text \<open>
  An input whose two rounded amounts do not reconcile: the unrounded premium is
  \<open>2002.4950000000001\<close>, the annual premium \<open>2002.5\<close>, the monthly premium
  \<open>166.87\<close>, while a twelfth of the rounded annual premium rounds to \<open>166.88\<close>.
\<close>

lemma case_not_reconciled:
  "calculate_premium ''Toyota'' 36409 30 10 ''StateFarm'' ''standard'' =
     Inr (Success
       \<lparr>insurer = ''StateFarm'', reputation = ''Like a good neighbor, reliable'',
        tier = ''standard'', tier_name = ''Standard Coverage'', brand_category = ''japanese'',
        annual_premium = 4005 / 2, monthly_premium = fl (16687 / 100), add_ons = [],
        coverage_includes =
          [''Bodily Injury Liability'', ''Property Damage Liability'', ''Collision Coverage'',
           ''Comprehensive Coverage'', ''Uninsured Motorist'']\<rparr>)"
  by code_simp

lemma case_not_reconciled_values:
  "round2 (fdiv (4005 / 2) 12) = fl (16688 / 100)"
  "fl (16687 / 100) \<noteq> fl (16688 / 100)"
  "fmul (fl (16687 / 100)) 12 \<noteq> 4005 / 2"
  by code_simp+

text \<open>
  Claim C7. For every valid input the annual premium is the unrounded premium rounded to
  two places and the monthly premium is a twelfth of the unrounded premium rounded to two
  places: the two are rounded independently. The monthly premium is not derived from the
  rounded annual premium and the two need not reconcile, as the input above shows.
\<close>

theorem monthly_rounded_independently:
  assumes "18 \<le> age" and "0 \<le> years"
    and "map_of INSURERS n = Some ins" and "map_of COVERAGE_TIERS t = Some ti"
  shows "(\<exists>br am em q.
           getitem BRAND_RATES (Some (get_brand_category b)) = Inr br \<and>
           getitem AGE_ADJUSTMENT (get_age_bracket age) = Inr am \<and>
           getitem EXPERIENCE_ADJUSTMENT (get_experience_bracket years) = Inr em \<and>
           calculate_premium b v age years n t = Inr (Success q) \<and>
           annual_premium q =
             round2 (fadd (fmul (max (fmul (fmul (fmul (fmul v br) am) em) (price_multiplier ti))
                                  (of_int (minimum_annual ti))) (multiplier ins))
                     (of_int (if t = ''premium'' then get_addon_total n else 0))) \<and>
           monthly_premium q =
             round2 (fdiv (fadd (fmul (max (fmul (fmul (fmul (fmul v br) am) em)
                                             (price_multiplier ti))
                                        (of_int (minimum_annual ti))) (multiplier ins))
                           (of_int (if t = ''premium'' then get_addon_total n else 0))) 12)) \<and>
         calculate_premium ''Toyota'' 36409 30 10 ''StateFarm'' ''standard'' =
           Inr (Success
             \<lparr>insurer = ''StateFarm'', reputation = ''Like a good neighbor, reliable'',
              tier = ''standard'', tier_name = ''Standard Coverage'',
              brand_category = ''japanese'',
              annual_premium = 4005 / 2, monthly_premium = fl (16687 / 100), add_ons = [],
              coverage_includes =
                [''Bodily Injury Liability'', ''Property Damage Liability'',
                 ''Collision Coverage'', ''Comprehensive Coverage'', ''Uninsured Motorist'']\<rparr>) \<and>
         round2 (fdiv (4005 / 2) 12) = fl (16688 / 100) \<and>
         fl (16687 / 100) \<noteq> fl (16688 / 100) \<and>
         fmul (fl (16687 / 100)) 12 \<noteq> 4005 / 2"
proof -
  from calculate_premium_valid [OF assms, of b v]
  have "\<exists>br am em q.
           getitem BRAND_RATES (Some (get_brand_category b)) = Inr br \<and>
           getitem AGE_ADJUSTMENT (get_age_bracket age) = Inr am \<and>
           getitem EXPERIENCE_ADJUSTMENT (get_experience_bracket years) = Inr em \<and>
           calculate_premium b v age years n t = Inr (Success q) \<and>
           annual_premium q =
             round2 (fadd (fmul (max (fmul (fmul (fmul (fmul v br) am) em) (price_multiplier ti))
                                  (of_int (minimum_annual ti))) (multiplier ins))
                     (of_int (if t = ''premium'' then get_addon_total n else 0))) \<and>
           monthly_premium q =
             round2 (fdiv (fadd (fmul (max (fmul (fmul (fmul (fmul v br) am) em)
                                             (price_multiplier ti))
                                        (of_int (minimum_annual ti))) (multiplier ins))
                           (of_int (if t = ''premium'' then get_addon_total n else 0))) 12)"
    by force
  then show ?thesis
    by (intro conjI case_not_reconciled case_not_reconciled_values)
qed

theorem monthly_rounded_independently_witness:
  "\<exists>ins ti.
     (18::int) \<le> 30 \<and> (0::int) \<le> 10 \<and>
     map_of INSURERS ''StateFarm'' = Some ins \<and> map_of COVERAGE_TIERS ''standard'' = Some ti \<and>
     (\<exists>br am em q.
           getitem BRAND_RATES (Some (get_brand_category ''Toyota'')) = Inr br \<and>
           getitem AGE_ADJUSTMENT (get_age_bracket 30) = Inr am \<and>
           getitem EXPERIENCE_ADJUSTMENT (get_experience_bracket 10) = Inr em \<and>
           calculate_premium ''Toyota'' 36409 30 10 ''StateFarm'' ''standard'' = Inr (Success q) \<and>
           annual_premium q =
             round2 (fadd (fmul (max (fmul (fmul (fmul (fmul 36409 br) am) em) (price_multiplier ti))
                                  (of_int (minimum_annual ti))) (multiplier ins))
                     (of_int (if ''standard'' = ''premium'' then get_addon_total ''StateFarm''
                              else 0))) \<and>
           monthly_premium q =
             round2 (fdiv (fadd (fmul (max (fmul (fmul (fmul (fmul 36409 br) am) em)
                                             (price_multiplier ti))
                                        (of_int (minimum_annual ti))) (multiplier ins))
                           (of_int (if ''standard'' = ''premium'' then get_addon_total ''StateFarm''
                                    else 0))) 12))"
proof -
  have h1: "(18::int) \<le> 30" and h2: "(0::int) \<le> 10" by simp_all
  obtain ins where h3: "map_of INSURERS ''StateFarm'' = Some ins" by (simp add: INSURERS_def)
  obtain ti where h4: "map_of COVERAGE_TIERS ''standard'' = Some ti"
    by (simp add: COVERAGE_TIERS_def)
  show ?thesis
    using h1 h2 h3 h4 monthly_rounded_independently [OF h1 h2 h3 h4, of "''Toyota''" 36409]
    by blast
qed

text \<open>
  The add-on names of Travelers from the resolver, and the Travelers premium quote.
\<close>

lemma addon_names_travelers:
  "get_addon_names ''Travelers'' =
     [''Roadside Assistance'', ''Rental Car Coverage'', ''Gap Insurance'',
      ''Accident Forgiveness'', ''OEM Parts Guarantee'', ''Concierge Service (FREE)'']"
  by code_simp

lemma case_travelers_premium:
  "calculate_premium ''Toyota'' 20000 30 10 ''Travelers'' ''premium'' =
     Inr (Success
       \<lparr>insurer = ''Travelers'', reputation = ''Premium service, established since 1853'',
        tier = ''premium'', tier_name = ''Premium Coverage'', brand_category = ''japanese'',
        annual_premium = 3150, monthly_premium = 525 / 2,
        add_ons =
          [\<lparr>detail_name = ''Roadside Assistance'', cost = 50, detail_note = None\<rparr>,
           \<lparr>detail_name = ''Rental Car Coverage'', cost = 75, detail_note = None\<rparr>,
           \<lparr>detail_name = ''Gap Insurance'', cost = 100, detail_note = None\<rparr>,
           \<lparr>detail_name = ''Accident Forgiveness'', cost = 150, detail_note = None\<rparr>,
           \<lparr>detail_name = ''OEM Parts Guarantee'', cost = 75, detail_note = None\<rparr>,
           \<lparr>detail_name = ''Concierge Claims Service'', cost = 0, detail_note = None\<rparr>],
        coverage_includes = [''Everything in Standard'', ''Plus selected add-ons'']\<rparr>)"
  by code_simp

text \<open>
  Claim C9 as stated says that for every known insurer the names from \<open>get_addon_names\<close>
  and the calculator's add-on list name the same add-ons. For Travelers the last names
  differ: \<open>Concierge Service (FREE)\<close> against \<open>Concierge Claims Service\<close>.
\<close>

theorem addon_names_inconsistent_counterexample:
  "calculate_premium ''Toyota'' 20000 30 10 ''Travelers'' ''premium'' =
     Inr (Success
       \<lparr>insurer = ''Travelers'', reputation = ''Premium service, established since 1853'',
        tier = ''premium'', tier_name = ''Premium Coverage'', brand_category = ''japanese'',
        annual_premium = 3150, monthly_premium = 525 / 2,
        add_ons =
          [\<lparr>detail_name = ''Roadside Assistance'', cost = 50, detail_note = None\<rparr>,
           \<lparr>detail_name = ''Rental Car Coverage'', cost = 75, detail_note = None\<rparr>,
           \<lparr>detail_name = ''Gap Insurance'', cost = 100, detail_note = None\<rparr>,
           \<lparr>detail_name = ''Accident Forgiveness'', cost = 150, detail_note = None\<rparr>,
           \<lparr>detail_name = ''OEM Parts Guarantee'', cost = 75, detail_note = None\<rparr>,
           \<lparr>detail_name = ''Concierge Claims Service'', cost = 0, detail_note = None\<rparr>],
        coverage_includes = [''Everything in Standard'', ''Plus selected add-ons'']\<rparr>) \<and>
   get_addon_names ''Travelers'' =
     [''Roadside Assistance'', ''Rental Car Coverage'', ''Gap Insurance'',
      ''Accident Forgiveness'', ''OEM Parts Guarantee'', ''Concierge Service (FREE)'']"
  by (intro conjI case_travelers_premium addon_names_travelers)

lemma tier_offers_single:
  assumes "calculate_premium b v age years n t = Inr (Success q)"
  shows "tier_offers b v age years t [n] =
           Inr [\<lparr>offer_insurer = insurer q, offer_reputation = reputation q,
                 offer_annual_premium = annual_premium q,
                 offer_monthly_premium = monthly_premium q,
                 offer_add_ons = (if t = ''premium'' then get_addon_names (insurer q) else [])\<rparr>]"
  by (simp add: assms)

text \<open>
  Claim C9, as amended. For every known insurer, the premium-tier offer of the aggregator
  carries \<open>get_addon_names\<close> of the insurer, a list as long as the calculator's add-on
  list. For every insurer except Travelers the two lists give the same names in the same
  order. For Travelers they agree on all names but the last, which is the free special
  feature under two labels: \<open>Concierge Service (FREE)\<close> from the resolver and
  \<open>Concierge Claims Service\<close> in the calculator's list.
\<close>

theorem addon_names_consistent:
  assumes "18 \<le> age" and "0 \<le> years" and "map_of INSURERS n = Some ins"
  shows "\<exists>q x.
           calculate_premium b v age years n ''premium'' = Inr (Success q) \<and>
           tier_offers b v age years ''premium'' [n] = Inr [x] \<and>
           offer_insurer x = n \<and>
           offer_add_ons x = get_addon_names n \<and>
           length (offer_add_ons x) = length (add_ons q) \<and>
           (if n = ''Travelers''
            then butlast (offer_add_ons x) = butlast (map detail_name (add_ons q)) \<and>
                 last (offer_add_ons x) = ''Concierge Service (FREE)'' \<and>
                 last (map detail_name (add_ons q)) = ''Concierge Claims Service''
            else offer_add_ons x = map detail_name (add_ons q))"
proof -
  note facts = insurer_table_facts [OF assms(3)]
  obtain ti where ti: "map_of COVERAGE_TIERS ''premium'' = Some ti"
    by (simp add: COVERAGE_TIERS_def)
  from calculate_premium_valid [OF assms(1,2,3) ti, of b v]
  obtain q where
    q: "calculate_premium b v age years n ''premium'' = Inr (Success q)" and
    ins: "insurer q = n" and
    details: "add_ons q =
       map (\<lambda>a. \<lparr>detail_name = addon_name a, cost = annual_cost a, detail_note = None\<rparr>)
         (catalog_addons ins) @
       (if n = ''Travelers''
        then [\<lparr>detail_name = ''Concierge Claims Service'', cost = 0, detail_note = None\<rparr>]
        else [])"
    by force
  define c where "c \<longleftrightarrow> n = ''Travelers''"
  have details': "add_ons q =
       map (\<lambda>a. \<lparr>detail_name = addon_name a, cost = annual_cost a, detail_note = None\<rparr>)
         (catalog_addons ins) @
       (if c
        then [\<lparr>detail_name = ''Concierge Claims Service'', cost = 0, detail_note = None\<rparr>]
        else [])"
    using details by (simp add: c_def)
  have names: "get_addon_names n =
      map addon_name (catalog_addons ins) @ (if c then [''Concierge Service (FREE)''] else [])"
    by (simp add: get_addon_names_def assms(3) facts(4) c_def)
  let ?x = "\<lparr>offer_insurer = insurer q, offer_reputation = reputation q,
             offer_annual_premium = annual_premium q,
             offer_monthly_premium = monthly_premium q,
             offer_add_ons = get_addon_names (insurer q)\<rparr>"
  have x: "tier_offers b v age years ''premium'' [n] = Inr [?x]"
    using tier_offers_single [OF q] by simp
  have rest: "offer_insurer ?x = n \<and>
           offer_add_ons ?x = get_addon_names n \<and>
           length (offer_add_ons ?x) = length (add_ons q) \<and>
           (if c
            then butlast (offer_add_ons ?x) = butlast (map detail_name (add_ons q)) \<and>
                 last (offer_add_ons ?x) = ''Concierge Service (FREE)'' \<and>
                 last (map detail_name (add_ons q)) = ''Concierge Claims Service''
            else offer_add_ons ?x = map detail_name (add_ons q))"
    by (simp add: ins names details' comp_def butlast_append)
  show ?thesis
    using q x rest unfolding c_def by blast
qed

theorem addon_names_consistent_witness:
  "\<exists>ins.
     (18::int) \<le> 30 \<and> (0::int) \<le> 10 \<and> map_of INSURERS ''Travelers'' = Some ins \<and>
     (\<exists>q x.
           calculate_premium ''Toyota'' 20000 30 10 ''Travelers'' ''premium'' = Inr (Success q) \<and>
           tier_offers ''Toyota'' 20000 30 10 ''premium'' [''Travelers''] = Inr [x] \<and>
           offer_insurer x = ''Travelers'' \<and>
           offer_add_ons x = get_addon_names ''Travelers'' \<and>
           length (offer_add_ons x) = length (add_ons q) \<and>
           (if ''Travelers'' = ''Travelers''
            then butlast (offer_add_ons x) = butlast (map detail_name (add_ons q)) \<and>
                 last (offer_add_ons x) = ''Concierge Service (FREE)'' \<and>
                 last (map detail_name (add_ons q)) = ''Concierge Claims Service''
            else offer_add_ons x = map detail_name (add_ons q)))"
proof -
  have h1: "(18::int) \<le> 30" and h2: "(0::int) \<le> 10" by simp_all
  obtain ins where h3: "map_of INSURERS ''Travelers'' = Some ins" by (simp add: INSURERS_def)
  show ?thesis
    using h1 h2 h3 addon_names_consistent [OF h1 h2 h3, of "''Toyota''" 20000]
    by blast
qed

section \<open>Claims about the aggregator\<close>

text \<open>
  On valid input every call of the calculator for a registered insurer and a tier of the
  table succeeds, so each tier's loop yields one offer per insurer, in registration order,
  and the tiers are stored in the order requested, each list sorted by annual premium.
\<close>

lemma calculate_premium_success:
  assumes "18 \<le> age" and "0 \<le> years"
    and "n \<in> fst ` set INSURERS" and "t \<in> fst ` set COVERAGE_TIERS"
  shows "\<exists>q. calculate_premium b v age years n t = Inr (Success q) \<and> insurer q = n"
proof -
  obtain ins where ins: "map_of INSURERS n = Some ins"
    using assms(3) by (cases "map_of INSURERS n") (auto simp: map_of_eq_None_iff)
  obtain ti where ti: "map_of COVERAGE_TIERS t = Some ti"
    using assms(4) by (cases "map_of COVERAGE_TIERS t") (auto simp: map_of_eq_None_iff)
  from calculate_premium_valid [OF assms(1,2) ins ti, of b v] show ?thesis by force
qed

lemma tier_offers_all:
  assumes "18 \<le> age" and "0 \<le> years" and "t \<in> fst ` set COVERAGE_TIERS"
  shows "set ns \<subseteq> fst ` set INSURERS \<Longrightarrow>
         \<exists>os. tier_offers b v age years t ns = Inr os \<and> map offer_insurer os = ns"
proof (induction ns)
  case Nil
  then show ?case by simp
next
  case (Cons n ns)
  then obtain os where os: "tier_offers b v age years t ns = Inr os" "map offer_insurer os = ns"
    by auto
  from Cons.prems have "n \<in> fst ` set INSURERS" by simp
  from calculate_premium_success [OF assms(1,2) this assms(3), of b v]
  obtain q where q: "calculate_premium b v age years n t = Inr (Success q)" "insurer q = n"
    by blast
  show ?case by (simp add: os q)
qed

lemma all_tier_offers_all:
  assumes "18 \<le> age" and "0 \<le> years"
  shows "set ts \<subseteq> fst ` set COVERAGE_TIERS \<Longrightarrow>
         \<exists>results. all_tier_offers b v age years ts = Inr results \<and>
           map fst results = ts \<and>
           (\<forall>(t, os) \<in> set results.
              \<exists>unsorted. tier_offers b v age years t (map fst INSURERS) = Inr unsorted \<and>
                map offer_insurer unsorted = map fst INSURERS \<and>
                os = sort_key offer_annual_premium unsorted)"
proof (induction ts)
  case Nil
  then show ?case by simp
next
  case (Cons t ts)
  then obtain results where r: "all_tier_offers b v age years ts = Inr results"
    "map fst results = ts"
    "\<forall>(t, os) \<in> set results.
        \<exists>unsorted. tier_offers b v age years t (map fst INSURERS) = Inr unsorted \<and>
          map offer_insurer unsorted = map fst INSURERS \<and>
          os = sort_key offer_annual_premium unsorted"
    by auto
  from Cons.prems have "t \<in> fst ` set COVERAGE_TIERS" by simp
  from tier_offers_all [OF assms this, of "map fst INSURERS" b v]
  obtain os where os: "tier_offers b v age years t (map fst INSURERS) = Inr os"
    "map offer_insurer os = map fst INSURERS"
    by auto
  show ?case using r(3) by (simp add: os r(1,2))
qed

lemma all_tier_offers_sorted:
  "all_tier_offers b v age years ts = Inr results \<Longrightarrow>
   map fst results = ts \<and>
   (\<forall>(t, os) \<in> set results.
      \<exists>unsorted. tier_offers b v age years t (map fst INSURERS) = Inr unsorted \<and>
        os = sort_key offer_annual_premium unsorted)"
  by (induction ts arbitrary: results) (auto split: sum.splits)

lemma distinct_map_insort_key:
  "distinct (map g (insort_key f x xs)) \<longleftrightarrow> g x \<notin> g ` set xs \<and> distinct (map g xs)"
  by (induction xs) (auto simp: set_insort_key)

lemma distinct_map_sort_key: "distinct (map g (sort_key f xs)) \<longleftrightarrow> distinct (map g xs)"
  by (induction xs) (auto simp: distinct_map_insort_key)

text \<open>
  With negative licence years and otherwise valid input, the first call of the calculator
  raises, for every tier selector the aggregator accepts.
\<close>

lemma get_insurance_quotes_negative_years:
  assumes "18 \<le> age" and "0 < v" and "years < 0"
    and "lower sel \<in> {''liability'', ''standard'', ''premium'', ''all''}"
  shows "get_insurance_quotes b v age years sel = Inl KeyError"
proof -
  have raise: "tier_offers b v age years t (map fst INSURERS) = Inl KeyError" for t
    by (simp add: INSURERS_def calculate_premium_negative_years [OF assms(1,3)])
  have not18: "\<not> age < 18" and pos: "\<not> v \<le> 0" using assms(1,2) by simp_all
  show ?thesis
  proof (cases "lower sel = ''all''")
    case True
    then show ?thesis by (simp add: get_insurance_quotes_def not18 pos raise)
  next
    case False
    with assms(4) have "lower sel \<in> set [''liability'', ''standard'', ''premium'']" by auto
    with False show ?thesis by (simp add: get_insurance_quotes_def not18 pos raise)
  qed
qed

text \<open>
  Claim C5. With the tier selector \<open>all\<close>, in any letter case, a valid call returns quotes,
  and whenever quotes are returned their keys are exactly liability, standard and premium;
  each tier's list is sorted ascending by annual premium, and offers with equal annual
  premium keep the order of the unsorted list, which is the registration order of the
  insurers: the sort is stable. The result is a function of the arguments.
\<close>

theorem all_tiers_sorted:
  assumes "lower sel = ''all''"
  shows "(18 \<le> age \<and> 0 < v \<and> 0 \<le> years \<longrightarrow>
            (\<exists>r. get_insurance_quotes b v age years sel = Inr (Success r))) \<and>
         (\<forall>r. get_insurance_quotes b v age years sel = Inr (Success r) \<longrightarrow>
            map fst (quotes r) = [''liability'', ''standard'', ''premium''] \<and>
            (\<forall>(t, os) \<in> set (quotes r).
               sorted (map offer_annual_premium os) \<and>
               (\<exists>unsorted.
                  tier_offers b v age years t (map fst INSURERS) = Inr unsorted \<and>
                  (\<forall>k. filter (\<lambda>x. offer_annual_premium x = k) os =
                        filter (\<lambda>x. offer_annual_premium x = k) unsorted))))"
proof -
  have part1: "18 \<le> age \<and> 0 < v \<and> 0 \<le> years \<longrightarrow>
            (\<exists>r. get_insurance_quotes b v age years sel = Inr (Success r))"
  proof
    assume valid: "18 \<le> age \<and> 0 < v \<and> 0 \<le> years"
    have "set [''liability'', ''standard'', ''premium''] \<subseteq> fst ` set COVERAGE_TIERS"
      by (simp add: COVERAGE_TIERS_def)
    from all_tier_offers_all [OF _ _ this, of age years b v] valid
    obtain results where
      "all_tier_offers b v age years [''liability'', ''standard'', ''premium''] = Inr results"
      by blast
    with valid assms show "\<exists>r. get_insurance_quotes b v age years sel = Inr (Success r)"
      by (simp add: get_insurance_quotes_def)
  qed
  have part2: "\<forall>r. get_insurance_quotes b v age years sel = Inr (Success r) \<longrightarrow>
            map fst (quotes r) = [''liability'', ''standard'', ''premium''] \<and>
            (\<forall>(t, os) \<in> set (quotes r).
               sorted (map offer_annual_premium os) \<and>
               (\<exists>unsorted.
                  tier_offers b v age years t (map fst INSURERS) = Inr unsorted \<and>
                  (\<forall>k. filter (\<lambda>x. offer_annual_premium x = k) os =
                        filter (\<lambda>x. offer_annual_premium x = k) unsorted)))"
  proof (intro allI impI)
    fix r
    assume ok: "get_insurance_quotes b v age years sel = Inr (Success r)"
    then have "all_tier_offers b v age years [''liability'', ''standard'', ''premium''] =
        Inr (quotes r)"
      using assms by (auto simp: get_insurance_quotes_def split: if_splits sum.splits)
    from all_tier_offers_sorted [OF this]
    have keys: "map fst (quotes r) = [''liability'', ''standard'', ''premium'']" and
      each: "\<forall>(t, os) \<in> set (quotes r).
        \<exists>unsorted. tier_offers b v age years t (map fst INSURERS) = Inr unsorted \<and>
          os = sort_key offer_annual_premium unsorted"
      by simp_all
    have "\<forall>(t, os) \<in> set (quotes r).
                 sorted (map offer_annual_premium os) \<and>
                 (\<exists>unsorted.
                    tier_offers b v age years t (map fst INSURERS) = Inr unsorted \<and>
                    (\<forall>k. filter (\<lambda>x. offer_annual_premium x = k) os =
                          filter (\<lambda>x. offer_annual_premium x = k) unsorted))"
    proof (clarify)
      fix t os assume "(t, os) \<in> set (quotes r)"
      with each obtain unsorted where
        u: "tier_offers b v age years t (map fst INSURERS) = Inr unsorted"
          "os = sort_key offer_annual_premium unsorted"
        by blast
      have "sorted (map offer_annual_premium os)" by (simp add: u(2))
      moreover have "\<forall>k. filter (\<lambda>x. offer_annual_premium x = k) os =
          filter (\<lambda>x. offer_annual_premium x = k) unsorted"
        by (simp add: u(2) sort_key_stable)
      ultimately show "sorted (map offer_annual_premium os) \<and>
                 (\<exists>unsorted.
                    tier_offers b v age years t (map fst INSURERS) = Inr unsorted \<and>
                    (\<forall>k. filter (\<lambda>x. offer_annual_premium x = k) os =
                          filter (\<lambda>x. offer_annual_premium x = k) unsorted))"
        using u(1) by blast
    qed
    with keys show "map fst (quotes r) = [''liability'', ''standard'', ''premium''] \<and>
              (\<forall>(t, os) \<in> set (quotes r).
                 sorted (map offer_annual_premium os) \<and>
                 (\<exists>unsorted.
                    tier_offers b v age years t (map fst INSURERS) = Inr unsorted \<and>
                    (\<forall>k. filter (\<lambda>x. offer_annual_premium x = k) os =
                          filter (\<lambda>x. offer_annual_premium x = k) unsorted)))"
      by blast
  qed
  show ?thesis using part1 part2 by (rule conjI)
qed

theorem all_tiers_sorted_witness:
  "lower ''ALL'' = ''all'' \<and>
   (\<exists>r. get_insurance_quotes ''Toyota'' 20000 30 10 ''ALL'' = Inr (Success r) \<and>
      map fst (quotes r) = [''liability'', ''standard'', ''premium''] \<and>
      list_all (\<lambda>(t, os). sorted (map offer_annual_premium os)) (quotes r))"
proof -
  have h: "lower ''ALL'' = ''all''" by code_simp
  note inst = all_tiers_sorted [OF h, of 30 20000 10 "''Toyota''"]
  from inst obtain r where
    r: "get_insurance_quotes ''Toyota'' 20000 30 10 ''ALL'' = Inr (Success r)"
    by auto
  with inst have k: "map fst (quotes r) = [''liability'', ''standard'', ''premium'']"
    and each: "\<forall>(t, os) \<in> set (quotes r). sorted (map offer_annual_premium os)"
    by blast+
  have la: "list_all (\<lambda>(t, os). sorted (map offer_annual_premium os)) (quotes r)"
    unfolding list_all_iff using each by blast
  show ?thesis by (intro conjI exI [of _ r]) (rule h r k la)+
qed

text \<open>
  Claim C10. For every input that passes the aggregator's preconditions (age at least 18,
  positive car value, licence years not negative, tier selector one of the three tiers or
  \<open>all\<close>, in any letter case), the call returns quotes for exactly the requested tiers, and
  each tier's list holds exactly one offer for each of the five registered insurers: the
  branch that skips a failed calculation never drops an insurer.
\<close>

theorem every_insurer_quoted:
  assumes "18 \<le> age" and "0 < v" and "0 \<le> years"
    and "lower sel \<in> {''liability'', ''standard'', ''premium'', ''all''}"
  shows "\<exists>r. get_insurance_quotes b v age years sel = Inr (Success r) \<and>
           map fst (quotes r) =
             (if lower sel = ''all'' then [''liability'', ''standard'', ''premium'']
              else [lower sel]) \<and>
           length INSURERS = 5 \<and> distinct (map fst INSURERS) \<and>
           (\<forall>(t, os) \<in> set (quotes r).
              length os = length INSURERS \<and>
              distinct (map offer_insurer os) \<and>
              set (map offer_insurer os) = set (map fst INSURERS) \<and>
              (\<exists>unsorted.
                 tier_offers b v age years t (map fst INSURERS) = Inr unsorted \<and>
                 map offer_insurer unsorted = map fst INSURERS))"
proof -
  let ?ts = "if lower sel = ''all'' then [''liability'', ''standard'', ''premium'']
             else [lower sel]"
  have d: "length INSURERS = 5 \<and> distinct (map fst INSURERS)"
    by (simp add: INSURERS_def)
  have "set ?ts \<subseteq> fst ` set COVERAGE_TIERS"
    using assms(4) by (auto simp: COVERAGE_TIERS_def)
  from all_tier_offers_all [OF assms(1,3) this, of b v]
  obtain results where res: "all_tier_offers b v age years ?ts = Inr results"
    "map fst results = ?ts"
    "\<forall>(t, os) \<in> set results.
        \<exists>unsorted. tier_offers b v age years t (map fst INSURERS) = Inr unsorted \<and>
          map offer_insurer unsorted = map fst INSURERS \<and>
          os = sort_key offer_annual_premium unsorted"
    by blast
  have props: "\<forall>(t, os) \<in> set results.
              length os = length INSURERS \<and>
              distinct (map offer_insurer os) \<and>
              set (map offer_insurer os) = set (map fst INSURERS) \<and>
              (\<exists>unsorted.
                 tier_offers b v age years t (map fst INSURERS) = Inr unsorted \<and>
                 map offer_insurer unsorted = map fst INSURERS)"
  proof (clarify)
    fix t os assume "(t, os) \<in> set results"
    with res(3) obtain unsorted where u:
      "tier_offers b v age years t (map fst INSURERS) = Inr unsorted"
      "map offer_insurer unsorted = map fst INSURERS"
      "os = sort_key offer_annual_premium unsorted"
      by blast
    have len: "length unsorted = length INSURERS"
      using arg_cong [OF u(2), of length] by simp
    have dist: "distinct (map offer_insurer unsorted)" using u(2) d by simp
    have "distinct (map offer_insurer os) \<and>
        set (map offer_insurer os) = set (map offer_insurer unsorted)"
      using dist by (simp add: u(3) distinct_map_sort_key)
    then show "length os = length INSURERS \<and>
              distinct (map offer_insurer os) \<and>
              set (map offer_insurer os) = set (map fst INSURERS) \<and>
              (\<exists>unsorted.
                 tier_offers b v age years t (map fst INSURERS) = Inr unsorted \<and>
                 map offer_insurer unsorted = map fst INSURERS)"
      using u len by auto
  qed
  have not18: "\<not> age < 18" and pos: "\<not> v \<le> 0" using assms(1,2) by simp_all
  have call: "get_insurance_quotes b v age years sel =
      Inr (Success \<lparr>car_brand = b, car_value = v, quotes = results\<rparr>)"
  proof (cases "lower sel = ''all''")
    case True
    with res(1) show ?thesis by (simp add: get_insurance_quotes_def not18 pos)
  next
    case False
    with assms(4) have "lower sel \<in> set [''liability'', ''standard'', ''premium'']" by auto
    with False res(1) show ?thesis by (simp add: get_insurance_quotes_def not18 pos)
  qed
  show ?thesis
    using call res(2) d props by simp
qed

theorem every_insurer_quoted_witness:
  "(18::int) \<le> 30 \<and> (0::rat) < 20000 \<and> (0::int) \<le> 10 \<and>
   lower ''Premium'' \<in> {''liability'', ''standard'', ''premium'', ''all''} \<and>
   (\<exists>r. get_insurance_quotes ''Toyota'' 20000 30 10 ''Premium'' = Inr (Success r) \<and>
      map fst (quotes r) = [''premium''] \<and>
      list_all (\<lambda>(t, os). length os = 5 \<and> distinct (map offer_insurer os) \<and>
                  set (map offer_insurer os) = set (map fst INSURERS)) (quotes r))"
proof -
  have h1: "(18::int) \<le> 30" and h2: "(0::rat) < 20000" and h3: "(0::int) \<le> 10" by simp_all
  have low: "lower ''Premium'' = ''premium''" by code_simp
  then have h4: "lower ''Premium'' \<in> {''liability'', ''standard'', ''premium'', ''all''}"
    by simp
  from every_insurer_quoted [OF h1 h2 h3 h4, of "''Toyota''"]
  obtain r where
    r: "get_insurance_quotes ''Toyota'' 20000 30 10 ''Premium'' = Inr (Success r)" and
    keys: "map fst (quotes r) =
       (if lower ''Premium'' = ''all'' then [''liability'', ''standard'', ''premium'']
        else [lower ''Premium''])" and
    five: "length INSURERS = 5" and
    each: "\<forall>(t, os) \<in> set (quotes r).
              length os = length INSURERS \<and>
              distinct (map offer_insurer os) \<and>
              set (map offer_insurer os) = set (map fst INSURERS) \<and>
              (\<exists>unsorted.
                 tier_offers ''Toyota'' 20000 30 10 t (map fst INSURERS) = Inr unsorted \<and>
                 map offer_insurer unsorted = map fst INSURERS)"
    by blast
  have k: "map fst (quotes r) = [''premium'']" using keys by (simp add: low)
  have la: "list_all (\<lambda>(t, os). length os = 5 \<and> distinct (map offer_insurer os) \<and>
                  set (map offer_insurer os) = set (map fst INSURERS)) (quotes r)"
    unfolding list_all_iff
  proof
    fix x assume x: "x \<in> set (quotes r)"
    obtain t os where tos: "x = (t, os)" by (cases x)
    with x each have "length os = length INSURERS \<and> distinct (map offer_insurer os) \<and>
        set (map offer_insurer os) = set (map fst INSURERS)"
      by blast
    with five tos show "case x of (t, os) \<Rightarrow>
        length os = 5 \<and> distinct (map offer_insurer os) \<and>
        set (map offer_insurer os) = set (map fst INSURERS)"
      by simp
  qed
  show ?thesis by (intro conjI exI [of _ r]) (rule h1 h2 h3 h4 r k la)+
qed

end
